theory Spec2Isabelle
  imports Complex_Main "HOL-Library.Sublist"
begin

section \<open>JavaScript values\<close>

text \<open>
  The component in \<^verbatim>\<open>src/components/EarthquakeMap.tsx\<close> reads the feed as untyped
  JSON (\<^verbatim>\<open>f: any\<close>), so the values it handles are modelled as JavaScript values.
  A number is an IEEE double: every finite double is a real number, and the two
  infinities and NaN are separate constructors. The code only compares numbers with
  the constants 3, 5 and 7, which is exact on doubles.

  A \<^typ>\<open>char\<close> stands for one UTF-16 code unit in the range U+0000 to U+00FF; strings
  with code units beyond that range are outside the model.
\<close>

datatype jsnum = NaN | NegInf | Fin real | PosInf

datatype jsval =
    JUndefined
  | JNull
  | JBool bool
  | JNum jsnum
  | JStr string
  | JArr "jsval list"
  | JObj "(string \<times> jsval) list"

text \<open>The relational operators \<^verbatim>\<open><\<close> and \<^verbatim>\<open>>=\<close> on numbers: any comparison with NaN is false.\<close>

fun num_lt :: "jsnum \<Rightarrow> jsnum \<Rightarrow> bool" where
  "num_lt NaN _ = False"
| "num_lt _ NaN = False"
| "num_lt _ NegInf = False"
| "num_lt NegInf _ = True"
| "num_lt PosInf _ = False"
| "num_lt (Fin a) PosInf = True"
| "num_lt (Fin a) (Fin b) = (a < b)"

definition num_ge :: "jsnum \<Rightarrow> jsnum \<Rightarrow> bool" where
  "num_ge a b = (a \<noteq> NaN \<and> b \<noteq> NaN \<and> \<not> num_lt a b)"

text \<open>
  ToNumber. On a string, an array or an object the language converts through
  ToPrimitive and StringToNumber; that conversion is not defined here and is the
  parameter \<open>cv\<close> of every function that compares a magnitude.
\<close>

definition ToNumber :: "(jsval \<Rightarrow> jsnum) \<Rightarrow> jsval \<Rightarrow> jsnum" where
  "ToNumber cv v =
     (case v of
        JUndefined \<Rightarrow> NaN
      | JNull \<Rightarrow> Fin 0
      | JBool b \<Rightarrow> Fin (if b then 1 else 0)
      | JNum n \<Rightarrow> n
      | _ \<Rightarrow> cv v)"

definition js_lt :: "(jsval \<Rightarrow> jsnum) \<Rightarrow> jsval \<Rightarrow> real \<Rightarrow> bool" where
  "js_lt cv v c = num_lt (ToNumber cv v) (Fin c)"

definition js_ge :: "(jsval \<Rightarrow> jsnum) \<Rightarrow> jsval \<Rightarrow> real \<Rightarrow> bool" where
  "js_ge cv v c = num_ge (ToNumber cv v) (Fin c)"

text \<open>ToBoolean: the falsy values are undefined, null, false, 0, NaN and the empty string.\<close>

fun truthy :: "jsval \<Rightarrow> bool" where
  "truthy JUndefined = False"
| "truthy JNull = False"
| "truthy (JBool b) = b"
| "truthy (JNum n) = (n \<noteq> NaN \<and> n \<noteq> Fin 0)"
| "truthy (JStr s) = (s \<noteq> [])"
| "truthy (JArr _) = True"
| "truthy (JObj _) = True"

section \<open>String methods\<close>

text \<open>White space and line terminators of the language that lie below U+0100.\<close>

definition is_ws :: "char \<Rightarrow> bool" where
  "is_ws c = ((of_char c :: nat) \<in> {9, 10, 11, 12, 13, 32, 160})"

text \<open>\<^verbatim>\<open>String.prototype.trim\<close>\<close>

definition js_trim :: "string \<Rightarrow> string" where
  "js_trim s = rev (dropWhile is_ws (rev (dropWhile is_ws s)))"

text \<open>
  \<^verbatim>\<open>String.prototype.toLowerCase\<close>: below U+0100 the letters with a lower-case
  partner are A to Z and U+00C0 to U+00DE without the multiplication sign U+00D7; the
  partner is 32 code points further.
\<close>

definition lower_char :: "char \<Rightarrow> char" where
  "lower_char c =
     (let n = (of_char c :: nat)
      in if (65 \<le> n \<and> n \<le> 90) \<or> (192 \<le> n \<and> n \<le> 222 \<and> n \<noteq> 215)
         then char_of (n + 32) else c)"

definition toLowerCase :: "string \<Rightarrow> string" where
  "toLowerCase s = map lower_char s"

text \<open>\<^verbatim>\<open>String.prototype.includes\<close>: does \<open>t\<close> occur in \<open>s\<close> at some position?\<close>

fun includes_str :: "string \<Rightarrow> string \<Rightarrow> bool" where
  "includes_str [] t = (t = [])"
| "includes_str (x # xs) t = (prefix t (x # xs) \<or> includes_str xs t)"

text \<open>
  \<^verbatim>\<open>String.prototype.split\<close> with a one-character separator. The result is never
  empty, so the first branch of the \<open>case\<close> is never taken.
\<close>

fun js_split :: "char \<Rightarrow> string \<Rightarrow> string list" where
  "js_split c [] = [[]]"
| "js_split c (x # xs) =
     (if x = c then [] # js_split c xs
      else (case js_split c xs of
              [] \<Rightarrow> [[x]]
            | seg # segs \<Rightarrow> (x # seg) # segs))"

text \<open>
  \<^verbatim>\<open>Array.prototype.slice(begin, end)\<close> for non-negative integral arguments, the only
  ones the component passes.
\<close>

definition js_slice :: "nat \<Rightarrow> nat \<Rightarrow> 'a list \<Rightarrow> 'a list" where
  "js_slice b e xs = drop b (take e xs)"

section \<open>The Earthquake type and the query pipeline\<close>

text \<open>
  \<^verbatim>\<open>type Earthquake = { id; place; mag; time; lat; lon; country? }\<close>. The type
  annotations are erased at run time: \<^verbatim>\<open>fetchData\<close> copies \<^verbatim>\<open>id\<close>, \<^verbatim>\<open>mag\<close>,
  \<^verbatim>\<open>time\<close>, \<^verbatim>\<open>lat\<close> and \<^verbatim>\<open>lon\<close> from the feed unchecked, so they are JavaScript
  values. \<^verbatim>\<open>place\<close> is always a string and \<^verbatim>\<open>country\<close> a string or undefined.
\<close>

record earthquake =
  id_f :: jsval
  place :: string
  mag :: jsval
  time :: jsval
  lat :: jsval
  lon :: jsval
  country :: "string option"

text \<open>The state \<^verbatim>\<open>filter\<close>: \<^verbatim>\<open>"all" | "0-3" | "3-5" | "5-7" | "7+"\<close>.\<close>

datatype range_filter = F_all | F_0_3 | F_3_5 | F_5_7 | F_7_plus

text \<open>
  \<^verbatim>\<open>
  const applyFilter = (eqs: Earthquake[]) => {
    let filtered = eqs;
    switch (filter) {
      case "0-3": filtered = filtered.filter((e) => e.mag < 3); break;
      case "3-5": filtered = filtered.filter((e) => e.mag >= 3 && e.mag < 5); break;
      case "5-7": filtered = filtered.filter((e) => e.mag >= 5 && e.mag < 7); break;
      case "7+": filtered = filtered.filter((e) => e.mag >= 7); break;
      default: break;
    }
    if (searchTerm.trim() !== "")
      filtered = filtered.filter((e) =>
        e.place.toLowerCase().includes(searchTerm.toLowerCase()));
    return filtered;
  };
  \<close>
  The states \<^verbatim>\<open>filter\<close> and \<^verbatim>\<open>searchTerm\<close> that the closure reads are arguments.
\<close>

definition applyFilter ::
  "(jsval \<Rightarrow> jsnum) \<Rightarrow> range_filter \<Rightarrow> string \<Rightarrow> earthquake list \<Rightarrow> earthquake list" where
  "applyFilter cv flt searchTerm eqs =
     (let filtered =
        (case flt of
           F_0_3 \<Rightarrow> filter (\<lambda>e. js_lt cv (mag e) 3) eqs
         | F_3_5 \<Rightarrow> filter (\<lambda>e. js_ge cv (mag e) 3 \<and> js_lt cv (mag e) 5) eqs
         | F_5_7 \<Rightarrow> filter (\<lambda>e. js_ge cv (mag e) 5 \<and> js_lt cv (mag e) 7) eqs
         | F_7_plus \<Rightarrow> filter (\<lambda>e. js_ge cv (mag e) 7) eqs
         | F_all \<Rightarrow> eqs)
      in if js_trim searchTerm \<noteq> []
         then filter (\<lambda>e. includes_str (toLowerCase (place e)) (toLowerCase searchTerm)) filtered
         else filtered)"

text \<open>\<^verbatim>\<open>const pageSize = 10;\<close>\<close>

definition pageSize :: nat where
  "pageSize = 10"

text \<open>
  \<^verbatim>\<open>const paginatedData = filteredData.slice(0, page * pageSize);\<close>
  The state \<^verbatim>\<open>page\<close> starts at 1, is reset to 1 and is otherwise only incremented, so
  it is a natural number.
\<close>

definition paginatedData :: "nat \<Rightarrow> 'a list \<Rightarrow> 'a list" where
  "paginatedData page filteredData = js_slice 0 (page * pageSize) filteredData"

section \<open>Reading the feed\<close>

text \<open>
  What a \<^verbatim>\<open>try\<close> block can throw: a TypeError of the language, the
  \<^verbatim>\<open>Error\<close> that \<^verbatim>\<open>fetchData\<close> throws itself (with its message), the rejection
  of \<^verbatim>\<open>fetch\<close> and the rejection of \<^verbatim>\<open>res.json()\<close>.
\<close>

datatype js_error = TypeError | Error string | FetchRejected | JsonRejected

definition bind_err :: "'e + 'a \<Rightarrow> ('a \<Rightarrow> 'e + 'b) \<Rightarrow> 'e + 'b" where
  "bind_err m k = (case m of Inl e \<Rightarrow> Inl e | Inr x \<Rightarrow> k x)"

text \<open>
  The property read \<^verbatim>\<open>v.k\<close>, for the names the component reads (\<^verbatim>\<open>features\<close>,
  \<^verbatim>\<open>length\<close>, \<^verbatim>\<open>geometry\<close>, \<^verbatim>\<open>coordinates\<close>, \<^verbatim>\<open>properties\<close>, \<^verbatim>\<open>place\<close>,
  \<^verbatim>\<open>mag\<close>, \<^verbatim>\<open>time\<close>, \<^verbatim>\<open>id\<close>). Reading a property of undefined or null throws;
  an object lists its own properties, each name once; of these names, arrays and strings
  have \<^verbatim>\<open>length\<close> only, numbers and booleans none.
\<close>

definition js_get :: "jsval \<Rightarrow> string \<Rightarrow> js_error + jsval" where
  "js_get v k =
     (case v of
        JUndefined \<Rightarrow> Inl TypeError
      | JNull \<Rightarrow> Inl TypeError
      | JObj kvs \<Rightarrow> Inr (case map_of kvs k of None \<Rightarrow> JUndefined | Some x \<Rightarrow> x)
      | JArr xs \<Rightarrow> Inr (if k = ''length'' then JNum (Fin (real (length xs))) else JUndefined)
      | JStr s \<Rightarrow> Inr (if k = ''length'' then JNum (Fin (real (length s))) else JUndefined)
      | _ \<Rightarrow> Inr JUndefined)"

text \<open>
  The array pattern \<^verbatim>\<open>const [lon, lat] = v\<close>: \<open>v\<close> must be iterable, which among
  these values only arrays and strings are; a missing element is undefined.
\<close>

definition elem_or_undefined :: "jsval list \<Rightarrow> nat \<Rightarrow> jsval" where
  "elem_or_undefined xs i = (if i < length xs then xs ! i else JUndefined)"

definition destructure2 :: "jsval \<Rightarrow> js_error + (jsval \<times> jsval)" where
  "destructure2 v =
     (case v of
        JArr xs \<Rightarrow> Inr (elem_or_undefined xs 0, elem_or_undefined xs 1)
      | JStr s \<Rightarrow>
          (let cs = map (\<lambda>c. JStr [c]) s
           in Inr (elem_or_undefined cs 0, elem_or_undefined cs 1))
      | _ \<Rightarrow> Inl TypeError)"

text \<open>
  \<^verbatim>\<open>x || undefined\<close> and the test \<^verbatim>\<open>if (x)\<close> for \<open>x\<close> a string or undefined: the
  empty string is falsy.
\<close>

definition or_undefined :: "string option \<Rightarrow> string option" where
  "or_undefined x = (case x of None \<Rightarrow> None | Some s \<Rightarrow> if s = [] then None else Some s)"

text \<open>
  The callback of \<^verbatim>\<open>data.features.map\<close> in \<^verbatim>\<open>fetchData\<close>:
  \<^verbatim>\<open>
  (f: any) => {
    const [lon, lat] = f.geometry.coordinates;
    const place: string = f.properties.place || "Unknown";
    let countryCode: string | undefined = undefined;
    const parts = place.split(",").map((p: string) => p.trim());
    if (parts.length > 1) {
      const lastPart = parts[parts.length - 1];
      countryCode = countries.getAlpha2Code(lastPart, "en") || undefined;
    }
    return { id: f.id, place, mag: f.properties.mag, time: f.properties.time,
             lat, lon, country: countryCode };
  }
  \<close>
  \<^verbatim>\<open>countries\<close> is the package i18n-iso-countries; its lookup
  \<^verbatim>\<open>getAlpha2Code(name, "en")\<close> is the parameter \<open>getAlpha2Code\<close> (\<open>None\<close> for
  undefined). A truthy \<^verbatim>\<open>place\<close> that is not a string has no method \<^verbatim>\<open>split\<close>,
  so the call throws.
\<close>

definition countryCode_of :: "(string \<Rightarrow> string option) \<Rightarrow> string \<Rightarrow> string option" where
  "countryCode_of getAlpha2Code place_v =
     (let parts = map js_trim (js_split CHR '','' place_v)
      in if length parts > 1
         then (let lastPart = parts ! (length parts - 1)
               in or_undefined (getAlpha2Code lastPart))
         else None)"

definition normalize_record :: "(string \<Rightarrow> string option) \<Rightarrow> jsval \<Rightarrow> js_error + earthquake" where
  "normalize_record getAlpha2Code f =
     bind_err (js_get f ''geometry'') (\<lambda>g.
     bind_err (js_get g ''coordinates'') (\<lambda>cs.
     bind_err (destructure2 cs) (\<lambda>(lon_v, lat_v).
     bind_err (js_get f ''properties'') (\<lambda>props.
     bind_err (js_get props ''place'') (\<lambda>pl.
     bind_err (if truthy pl then (case pl of JStr s \<Rightarrow> Inr s | _ \<Rightarrow> Inl TypeError)
               else Inr ''Unknown'') (\<lambda>place_v.
     bind_err (js_get f ''id'') (\<lambda>id_v.
     bind_err (js_get props ''mag'') (\<lambda>mag_v.
     bind_err (js_get props ''time'') (\<lambda>time_v.
       Inr \<lparr> id_f = id_v, place = place_v, mag = mag_v, time = time_v,
             lat = lat_v, lon = lon_v,
             country = countryCode_of getAlpha2Code place_v \<rparr>)))))))))"

text \<open>\<^verbatim>\<open>Array.prototype.map\<close> with a callback that may throw: the first throw ends the call.\<close>

fun map_err :: "('a \<Rightarrow> 'e + 'b) \<Rightarrow> 'a list \<Rightarrow> 'e + 'b list" where
  "map_err h [] = Inr []"
| "map_err h (x # xs) =
     (case h x of
        Inl e \<Rightarrow> Inl e
      | Inr y \<Rightarrow> (case map_err h xs of Inl e \<Rightarrow> Inl e | Inr ys \<Rightarrow> Inr (y # ys)))"

text \<open>\<^verbatim>\<open>data.features.map(...)\<close>: only an array has the method.\<close>

definition map_features :: "(string \<Rightarrow> string option) \<Rightarrow> jsval \<Rightarrow> js_error + earthquake list" where
  "map_features getAlpha2Code features =
     (case features of
        JArr fs \<Rightarrow> map_err (normalize_record getAlpha2Code) fs
      | _ \<Rightarrow> Inl TypeError)"

text \<open>
  The feed and the outcome of the one request: \<^verbatim>\<open>fetch\<close> rejects, or resolves to a
  response with \<^verbatim>\<open>ok\<close>, \<^verbatim>\<open>statusText\<close> and a body that \<^verbatim>\<open>res.json()\<close> parses
  (\<open>None\<close> when it rejects).
\<close>

datatype feed = Daily | Weekly

datatype response = Rejected | Response bool string "jsval option"

definition feed_url :: "feed \<Rightarrow> string" where
  "feed_url fd =
     (if fd = Daily
      then ''https://earthquake.usgs.gov/earthquakes/feed/v1.0/summary/all_day.geojson''
      else ''https://earthquake.usgs.gov/earthquakes/feed/v1.0/summary/all_week.geojson'')"

datatype language = En | Hi | Te

text \<open>The two states that \<^verbatim>\<open>fetchData\<close> sets.\<close>

record view_state =
  earthquakes :: "earthquake list"
  error :: "string option"

text \<open>How the \<^verbatim>\<open>try\<close> block ends: it throws, it returns early with no data, or it has the events.\<close>

datatype outcome = NoFeatures | Loaded "earthquake list"

text \<open>
  The body of the \<^verbatim>\<open>try\<close> block after \<^verbatim>\<open>setError(null)\<close>:
  \<^verbatim>\<open>
  const res = await fetch(url);
  if (!res.ok) throw new Error(`Failed to fetch data: ${res.statusText}`);
  const data = await res.json();
  if (!data.features || data.features.length === 0) { ...; return; }
  const eqs: Earthquake[] = data.features.map(...);
  \<close>
\<close>

definition try_block :: "(string \<Rightarrow> string option) \<Rightarrow> response \<Rightarrow> js_error + outcome" where
  "try_block getAlpha2Code res =
     (case res of
        Rejected \<Rightarrow> Inl FetchRejected
      | Response ok statusText body \<Rightarrow>
          if \<not> ok then Inl (Error (''Failed to fetch data: '' @ statusText))
          else (case body of
                  None \<Rightarrow> Inl JsonRejected
                | Some data \<Rightarrow>
                    bind_err (js_get data ''features'') (\<lambda>features.
                      if \<not> truthy features then Inr NoFeatures
                      else bind_err (js_get features ''length'') (\<lambda>len.
                        if len = JNum (Fin 0) then Inr NoFeatures
                        else bind_err (map_features getAlpha2Code features) (\<lambda>eqs.
                          Inr (Loaded eqs))))))"

text \<open>
  \<^verbatim>\<open>fetchData\<close>. \<open>net\<close> is the network (what the request to a URL gives), \<open>tr\<close> is
  \<^verbatim>\<open>translations[language].earthquakeData\<close> from the module \<^verbatim>\<open>../locales\<close>. The
  result is the state after the call and what \<^verbatim>\<open>console.error\<close> printed.
  \<^verbatim>\<open>
  try { setError(null); ...
    if (...) { setError(translations[language].earthquakeData + " not available.");
               setEarthquakes([]); return; }
    ...
    setEarthquakes(eqs);
  } catch (err: any) {
    console.error(err);
    setError(translations[language].earthquakeData + " failed to load.");
    setEarthquakes([]);
  }
  \<close>
\<close>

definition fetchData ::
  "(string \<Rightarrow> response) \<Rightarrow> (language \<Rightarrow> string) \<Rightarrow> (string \<Rightarrow> string option)
     \<Rightarrow> feed \<Rightarrow> language \<Rightarrow> view_state \<Rightarrow> view_state \<times> js_error list" where
  "fetchData net tr getAlpha2Code fd lang st =
     (let st1 = st\<lparr>error := None\<rparr>;
          url = feed_url fd
      in case try_block getAlpha2Code (net url) of
           Inr NoFeatures \<Rightarrow>
             (st1\<lparr>error := Some (tr lang @ '' not available.''), earthquakes := []\<rparr>, [])
         | Inr (Loaded eqs) \<Rightarrow> (st1\<lparr>earthquakes := eqs\<rparr>, [])
         | Inl err \<Rightarrow>
             (st1\<lparr>error := Some (tr lang @ '' failed to load.''), earthquakes := []\<rparr>, [err]))"

section \<open>Display of the country\<close>

text \<open>
  \<^verbatim>\<open>
  const formatCountry = (eq: Earthquake) => {
    if (eq.country) return countries.getName(eq.country, language) || eq.country;
    const parts = eq.place.split(",").map((p) => p.trim());
    return parts[parts.length - 1] || "Unknown";
  };
  \<close>
  \<^verbatim>\<open>countries.getName\<close> of i18n-iso-countries is the parameter \<open>getName\<close>.
\<close>

definition formatCountry ::
  "(string \<Rightarrow> language \<Rightarrow> string option) \<Rightarrow> language \<Rightarrow> earthquake \<Rightarrow> string" where
  "formatCountry getName lang eq =
     (case or_undefined (country eq) of
        Some c \<Rightarrow> (case or_undefined (getName c lang) of Some n \<Rightarrow> n | None \<Rightarrow> c)
      | None \<Rightarrow>
          (let parts = map js_trim (js_split CHR '','' (place eq));
               lastPart = parts ! (length parts - 1)
           in if lastPart \<noteq> [] then lastPart else ''Unknown''))"

section \<open>Notions used to state the properties\<close>

text \<open>
  An event is kept by a range filter when \<^verbatim>\<open>applyFilter\<close>, run with that filter and
  no search text on the event alone, returns it; it is kept by a search text when
  \<^verbatim>\<open>applyFilter\<close>, run with the filter \<^verbatim>\<open>"all"\<close> and that text on the event alone,
  returns it.
\<close>

definition kept_by_range :: "(jsval \<Rightarrow> jsnum) \<Rightarrow> range_filter \<Rightarrow> earthquake \<Rightarrow> bool" where
  "kept_by_range cv flt e = (applyFilter cv flt [] [e] = [e])"

definition kept_by_search :: "(jsval \<Rightarrow> jsnum) \<Rightarrow> string \<Rightarrow> earthquake \<Rightarrow> bool" where
  "kept_by_search cv t e = (applyFilter cv F_all t [e] = [e])"

text \<open>The read \<^verbatim>\<open>f.properties.mag\<close> of a feed record.\<close>

definition properties_mag :: "jsval \<Rightarrow> js_error + jsval" where
  "properties_mag f = bind_err (js_get f ''properties'') (\<lambda>props. js_get props ''mag'')"

section \<open>Concrete inputs\<close>

text \<open>
  A country table that knows Japan only, a label table, a conversion that maps every
  string, array and object to NaN, feed records, events, networks and states.
\<close>

definition sample_getAlpha2Code :: "string \<Rightarrow> string option" where
  "sample_getAlpha2Code s = (if s = ''Japan'' then Some ''JP'' else None)"

definition sample_getName :: "string \<Rightarrow> language \<Rightarrow> string option" where
  "sample_getName c l = (if c = ''JP'' \<and> l = En then Some ''Japan'' else None)"

definition sample_label :: "language \<Rightarrow> string" where
  "sample_label l = ''Earthquake Data''"

definition sample_cv :: "jsval \<Rightarrow> jsnum" where
  "sample_cv v = NaN"

definition feature_tokyo :: jsval where
  "feature_tokyo =
     JObj [(''id'', JStr ''ev1''),
           (''geometry'', JObj [(''coordinates'', JArr [JNum (Fin 139.5), JNum (Fin 35.5)])]),
           (''properties'', JObj [(''place'', JStr ''10km SE of Tokyo, Japan''),
                                  (''mag'', JNum (Fin 4.5)),
                                  (''time'', JNum (Fin 1700000000000))])]"

definition feature_without_mag :: jsval where
  "feature_without_mag =
     JObj [(''id'', JStr ''ev0''),
           (''geometry'', JObj [(''coordinates'', JArr [JNum (Fin 178), JNum (Fin (- 18))])]),
           (''properties'', JObj [(''place'', JStr ''Fiji region''),
                                  (''time'', JNum (Fin 1700000000500))])]"

definition feature_empty_place :: jsval where
  "feature_empty_place =
     JObj [(''id'', JStr ''ev2''),
           (''geometry'', JObj [(''coordinates'', JArr [JNum (Fin 10), JNum (Fin 20)])]),
           (''properties'', JObj [(''place'', JStr []),
                                  (''mag'', JNum (Fin 2)),
                                  (''time'', JNum (Fin 1700000001000))])]"

definition event_tokyo :: earthquake where
  "event_tokyo =
     \<lparr> id_f = JStr ''ev1'', place = ''10km SE of Tokyo, Japan'', mag = JNum (Fin 4.5),
       time = JNum (Fin 1700000000000), lat = JNum (Fin 35.5), lon = JNum (Fin 139.5),
       country = Some ''JP'' \<rparr>"

definition event_fiji :: earthquake where
  "event_fiji =
     \<lparr> id_f = JStr ''ev0'', place = ''Fiji region'', mag = JUndefined,
       time = JNum (Fin 1700000000500), lat = JNum (Fin (- 18)), lon = JNum (Fin 178),
       country = None \<rparr>"

definition event_unknown :: earthquake where
  "event_unknown =
     \<lparr> id_f = JStr ''ev2'', place = ''Unknown'', mag = JNum (Fin 2),
       time = JNum (Fin 1700000001000), lat = JNum (Fin 20), lon = JNum (Fin 10),
       country = None \<rparr>"

definition event_trailing_comma :: earthquake where
  "event_trailing_comma =
     \<lparr> id_f = JStr ''ev3'', place = ''Tokyo, '', mag = JNum (Fin 1),
       time = JNum (Fin 1700000002000), lat = JNum (Fin 35), lon = JNum (Fin 139),
       country = None \<rparr>"

definition event_osaka :: earthquake where
  "event_osaka =
     \<lparr> id_f = JStr ''ev4'', place = ''20km N of Osaka, Japan'', mag = JNum (Fin 4),
       time = JNum (Fin 1700000003000), lat = JNum (Fin 34.5), lon = JNum (Fin 135.5),
       country = Some ''JP'' \<rparr>"

definition net_status_500 :: "string \<Rightarrow> response" where
  "net_status_500 url = Response False ''Internal Server Error'' None"

definition net_status_404 :: "string \<Rightarrow> response" where
  "net_status_404 url = Response False ''Not Found'' None"

definition net_rejected :: "string \<Rightarrow> response" where
  "net_rejected url = Rejected"

definition net_empty_features :: "string \<Rightarrow> response" where
  "net_empty_features url = Response True ''OK'' (Some (JObj [(''features'', JArr [])]))"

definition loaded_state :: view_state where
  "loaded_state = \<lparr> earthquakes = [event_tokyo], error = None \<rparr>"

section \<open>Facts about the string methods\<close>

lemma js_trim_Nil [simp]: "js_trim [] = []"
  by (simp add: js_trim_def)

lemma js_trim_eq_Nil: "js_trim s = [] \<longleftrightarrow> (\<forall>c\<in>set s. is_ws c)"
proof -
  have "js_trim s = [] \<longleftrightarrow> (\<forall>c\<in>set (dropWhile is_ws s). is_ws c)"
    by (simp add: js_trim_def)
  also have "\<dots> \<longleftrightarrow> dropWhile is_ws s = []"
    by (metis hd_dropWhile list.set_sel(1) empty_iff list.set(1))
  also have "\<dots> \<longleftrightarrow> (\<forall>c\<in>set s. is_ws c)"
    by simp
  finally show ?thesis .
qed

lemma is_ws_lower_char: "is_ws (lower_char c) \<longleftrightarrow> is_ws c"
proof -
  have b: "(of_char c :: nat) < 256"
    by simp
  show ?thesis
    using b by (auto simp: is_ws_def lower_char_def Let_def)
qed

lemma js_trim_toLowerCase_Nil: "js_trim (toLowerCase t) = [] \<longleftrightarrow> js_trim t = []"
  by (simp add: js_trim_eq_Nil toLowerCase_def is_ws_lower_char)

lemma includes_str_sublist: "includes_str s t \<longleftrightarrow> sublist t s"
  by (induction s) (auto simp: sublist_Cons_right)

lemma includes_lower_iff:
  "includes_str (toLowerCase s) (toLowerCase t) \<longleftrightarrow>
     (\<exists>u. sublist u s \<and> toLowerCase u = toLowerCase t)"
  unfolding includes_str_sublist toLowerCase_def
  by (metis map_mono_sublist sublist_map_rightE)

lemma js_split_ne [simp]: "js_split c s \<noteq> []"
  by (induction s) (auto split: list.splits)

lemma js_split_Cons:
  "js_split c (x # xs) =
     (if x = c then [] # js_split c xs
      else (x # hd (js_split c xs)) # tl (js_split c xs))"
  by (cases "js_split c xs") auto

lemma length_js_split: "length (js_split c s) = Suc (length (filter (\<lambda>x. x = c) s))"
  by (induction s) (auto simp: Suc_pred js_split_Cons simp del: js_split.simps(2))

lemma js_split_many: "Suc 0 < length (js_split c s) \<longleftrightarrow> c \<in> set s"
  by (simp add: length_js_split filter_empty_conv)

lemma js_split_single: "c \<notin> set s \<Longrightarrow> js_split c s = [s]"
  by (induction s) auto

lemma last_js_split: "last (js_split c s) = rev (takeWhile (\<lambda>x. x \<noteq> c) (rev s))"
proof (induction s)
  case Nil
  then show ?case by simp
next
  case (Cons x s)
  show ?case
  proof (cases "c \<in> set s")
    case True
    then have "tl (js_split c s) \<noteq> []"
      using js_split_many [of c s] by (cases "js_split c s") auto
    with True Cons show ?thesis
      by (auto simp: takeWhile_append last_tl js_split_Cons simp del: js_split.simps(2))
  next
    case False
    then have "\<forall>x\<in>set s. x \<noteq> c"
      by blast
    with False show ?thesis
      by (simp add: js_split_single takeWhile_append)
  qed
qed

lemma last_part:
  "map js_trim (js_split c s) ! (length (js_split c s) - 1) =
     js_trim (rev (takeWhile (\<lambda>x. x \<noteq> c) (rev s)))"
proof -
  have "map js_trim (js_split c s) ! (length (js_split c s) - 1) = js_trim (last (js_split c s))"
    by (simp add: last_conv_nth)
  then show ?thesis
    by (simp add: last_js_split)
qed

section \<open>Facts about the query pipeline\<close>

lemma kept_by_range_simps:
  "kept_by_range cv F_all e = True"
  "kept_by_range cv F_0_3 e = js_lt cv (mag e) 3"
  "kept_by_range cv F_3_5 e = (js_ge cv (mag e) 3 \<and> js_lt cv (mag e) 5)"
  "kept_by_range cv F_5_7 e = (js_ge cv (mag e) 5 \<and> js_lt cv (mag e) 7)"
  "kept_by_range cv F_7_plus e = js_ge cv (mag e) 7"
  by (simp_all add: kept_by_range_def applyFilter_def)

lemma kept_by_range_Fin:
  assumes "mag e = JNum (Fin m)"
  shows "kept_by_range cv flt e \<longleftrightarrow>
     (case flt of
        F_all \<Rightarrow> True
      | F_0_3 \<Rightarrow> m < 3
      | F_3_5 \<Rightarrow> 3 \<le> m \<and> m < 5
      | F_5_7 \<Rightarrow> 5 \<le> m \<and> m < 7
      | F_7_plus \<Rightarrow> 7 \<le> m)"
  using assms
  by (auto simp: kept_by_range_simps js_lt_def js_ge_def ToNumber_def num_ge_def
      split: range_filter.splits)

lemma one_bucket:
  assumes "mag e = JNum (Fin m)"
  shows "\<exists>!flt. flt \<noteq> F_all \<and> kept_by_range cv flt e"
proof -
  note k = kept_by_range_Fin [OF assms]
  consider "m < 3" | "3 \<le> m" "m < 5" | "5 \<le> m" "m < 7" | "7 \<le> m"
    by linarith
  then show ?thesis
  proof cases
    case 1
    then show ?thesis
      by (intro ex1I [of _ F_0_3]) (auto simp: k split: range_filter.splits)
  next
    case 2
    then show ?thesis
      by (intro ex1I [of _ F_3_5]) (auto simp: k split: range_filter.splits)
  next
    case 3
    then show ?thesis
      by (intro ex1I [of _ F_5_7]) (auto simp: k split: range_filter.splits)
  next
    case 4
    then show ?thesis
      by (intro ex1I [of _ F_7_plus]) (auto simp: k split: range_filter.splits)
  qed
qed

lemma kept_by_search_iff:
  "kept_by_search cv t e \<longleftrightarrow>
     js_trim t = [] \<or> includes_str (toLowerCase (place e)) (toLowerCase t)"
  by (simp add: kept_by_search_def applyFilter_def Let_def)

lemma applyFilter_filter:
  "applyFilter cv flt t eqs = filter (kept_by_search cv t) (filter (kept_by_range cv flt) eqs)"
proof -
  have s: "kept_by_search cv t =
      (\<lambda>e. js_trim t = [] \<or> includes_str (toLowerCase (place e)) (toLowerCase t))"
    by (rule ext) (rule kept_by_search_iff)
  show ?thesis
    by (cases flt)
      (auto simp add: s applyFilter_def Let_def kept_by_range_simps [abs_def] intro: filter_cong)
qed

lemma applyFilter_no_search: "js_trim t = [] \<Longrightarrow> applyFilter cv flt t eqs = applyFilter cv flt [] eqs"
  by (simp add: applyFilter_def)

lemma applyFilter_lower_cong:
  assumes "toLowerCase s = toLowerCase t"
  shows "applyFilter cv flt s eqs = applyFilter cv flt t eqs"
proof -
  have "js_trim s = [] \<longleftrightarrow> js_trim t = []"
    using assms by (metis js_trim_toLowerCase_Nil)
  with assms have "kept_by_search cv s = kept_by_search cv t"
    by (auto simp: kept_by_search_iff fun_eq_iff)
  then show ?thesis
    by (simp add: applyFilter_filter)
qed

lemma js_slice_prefix: "n \<le> m \<Longrightarrow> prefix (js_slice 0 n xs) (js_slice 0 m xs)"
  by (simp add: js_slice_def prefix_def) (metis le_add_diff_inverse take_add)

section \<open>Facts about reading the feed\<close>

lemma bind_err_Inr: "bind_err m k = Inr y \<longleftrightarrow> (\<exists>x. m = Inr x \<and> k x = Inr y)"
  by (cases m) (simp_all add: bind_err_def)

lemma bind_err_Inl: "bind_err m k = Inl e \<longleftrightarrow> m = Inl e \<or> (\<exists>x. m = Inr x \<and> k x = Inl e)"
  by (cases m) (simp_all add: bind_err_def)

lemma map_err_Inr: "map_err h xs = Inr ys \<longleftrightarrow> list_all2 (\<lambda>x y. h x = Inr y) xs ys"
proof (induction xs arbitrary: ys)
  case Nil
  then show ?case by auto
next
  case (Cons x xs)
  have IH: "\<And>zs. list_all2 (\<lambda>x y. h x = Inr y) xs zs \<longleftrightarrow> map_err h xs = Inr zs"
    using Cons.IH by simp
  show ?case
    by (cases ys) (auto simp: IH split: sum.splits)
qed

lemma normalize_mag: "normalize_record R f = Inr e \<Longrightarrow> properties_mag f = Inr (mag e)"
  by (auto simp: normalize_record_def properties_mag_def bind_err_Inr split: prod.splits)

lemma normalize_error_indep: "normalize_record R f = Inl err \<longleftrightarrow> normalize_record R' f = Inl err"
  by (auto simp: normalize_record_def bind_err_Inl split: prod.splits)

lemma normalize_country: "normalize_record R f = Inr e \<Longrightarrow> country e = countryCode_of R (place e)"
  by (auto simp: normalize_record_def bind_err_Inr split: prod.splits)

lemma countryCode_of_eq:
  "countryCode_of R p =
     (if CHR '','' \<in> set p
      then or_undefined (R (js_trim (rev (takeWhile (\<lambda>c. c \<noteq> CHR '','') (rev p)))))
      else None)"
  using last_part [of "CHR '',''" p]
  by (simp add: countryCode_of_def Let_def js_split_many)

lemma normalize_feature_without_mag:
  "normalize_record sample_getAlpha2Code feature_without_mag = Inr event_fiji"
  by (simp add: normalize_record_def feature_without_mag_def event_fiji_def js_get_def bind_err_def
      destructure2_def elem_or_undefined_def countryCode_of_def)

lemma normalize_feature_tokyo:
  "normalize_record sample_getAlpha2Code feature_tokyo = Inr event_tokyo"
  by (simp add: normalize_record_def feature_tokyo_def event_tokyo_def js_get_def bind_err_def
      destructure2_def elem_or_undefined_def countryCode_of_def js_trim_def is_ws_def
      or_undefined_def sample_getAlpha2Code_def)

section \<open>The query pipeline: claims C2 to C6\<close>

text \<open>
  Claim C2. For every event collection, the query with the range filter \<^verbatim>\<open>"all"\<close>
  and the empty search text is the identity: \<^verbatim>\<open>applyFilter\<close> returns the input
  collection itself, so order and length are unchanged.
\<close>

theorem C2_all_and_empty_search_is_identity:
  "applyFilter cv F_all [] eqs = eqs \<and> length (applyFilter cv F_all [] eqs) = length eqs"
  by (simp add: applyFilter_def)

theorem C2_witness:
  "applyFilter sample_cv F_all [] [event_fiji, event_tokyo] = [event_fiji, event_tokyo]"
  using C2_all_and_empty_search_is_identity [of sample_cv "[event_fiji, event_tokyo]"]
  by simp

text \<open>
  Claim C3. For every event whose magnitude is the number \<open>m\<close>, the filter
  \<^verbatim>\<open>"3-5"\<close> keeps the event iff \<open>3 \<le> m < 5\<close>. For \<open>m\<close> from 0 upwards the filters
  \<^verbatim>\<open>"0-3"\<close>, \<^verbatim>\<open>"5-7"\<close> and \<^verbatim>\<open>"7+"\<close> keep it iff \<open>m\<close> lies in \<open>[0,3)\<close>, \<open>[5,7)\<close>
  and \<open>[7,\<infinity>)\<close>, each interval without its upper bound, and exactly one of the four
  buckets keeps it: no overlap and no gap.
\<close>

theorem C3_magnitude_buckets:
  assumes "mag e = JNum (Fin m)"
  shows "(kept_by_range cv F_3_5 e \<longleftrightarrow> 3 \<le> m \<and> m < 5) \<and>
         (0 \<le> m \<longrightarrow>
            (kept_by_range cv F_0_3 e \<longleftrightarrow> 0 \<le> m \<and> m < 3) \<and>
            (kept_by_range cv F_5_7 e \<longleftrightarrow> 5 \<le> m \<and> m < 7) \<and>
            (kept_by_range cv F_7_plus e \<longleftrightarrow> 7 \<le> m) \<and>
            (\<exists>!flt. flt \<noteq> F_all \<and> kept_by_range cv flt e))"
  using one_bucket [OF assms, of cv] by (simp add: kept_by_range_Fin [OF assms])

theorem C3_witness:
  "mag event_tokyo = JNum (Fin 4.5) \<and> (0::real) \<le> 4.5 \<and>
   kept_by_range sample_cv F_3_5 event_tokyo \<and>
   \<not> kept_by_range sample_cv F_0_3 event_tokyo \<and>
   \<not> kept_by_range sample_cv F_5_7 event_tokyo \<and>
   \<not> kept_by_range sample_cv F_7_plus event_tokyo \<and>
   (\<exists>!flt. flt \<noteq> F_all \<and> kept_by_range sample_cv flt event_tokyo)"
proof -
  have m: "mag event_tokyo = JNum (Fin 4.5)"
    by (simp add: event_tokyo_def)
  show ?thesis
    using m C3_magnitude_buckets [OF m, of sample_cv] by simp
qed

text \<open>
  Claim C4. For every event collection and query, \<^verbatim>\<open>applyFilter\<close> applies the range
  filter first and the search filter second. The range filter keeps the events whose
  magnitude passes the comparisons of the selected bucket (\<^verbatim>\<open>mag < 3\<close>,
  \<^verbatim>\<open>mag >= 3 && mag < 5\<close>, \<^verbatim>\<open>mag >= 5 && mag < 7\<close>, \<^verbatim>\<open>mag >= 7\<close>, all events for
  \<^verbatim>\<open>"all"\<close>); the search filter keeps the events whose lower-cased place includes the
  lower-cased text, all events when the text is blank. The result holds exactly the
  events that pass both (an AND), and it is a subsequence of the input, so the events
  that remain keep their relative order and nothing is sorted or added.
\<close>

theorem C4_range_then_search_stable:
  "applyFilter cv flt t eqs =
     filter (\<lambda>e. js_trim t = [] \<or> includes_str (toLowerCase (place e)) (toLowerCase t))
       (filter (\<lambda>e. case flt of
                       F_all \<Rightarrow> True
                     | F_0_3 \<Rightarrow> js_lt cv (mag e) 3
                     | F_3_5 \<Rightarrow> js_ge cv (mag e) 3 \<and> js_lt cv (mag e) 5
                     | F_5_7 \<Rightarrow> js_ge cv (mag e) 5 \<and> js_lt cv (mag e) 7
                     | F_7_plus \<Rightarrow> js_ge cv (mag e) 7) eqs) \<and>
   applyFilter cv flt t eqs =
     filter (\<lambda>e. (case flt of
                     F_all \<Rightarrow> True
                   | F_0_3 \<Rightarrow> js_lt cv (mag e) 3
                   | F_3_5 \<Rightarrow> js_ge cv (mag e) 3 \<and> js_lt cv (mag e) 5
                   | F_5_7 \<Rightarrow> js_ge cv (mag e) 5 \<and> js_lt cv (mag e) 7
                   | F_7_plus \<Rightarrow> js_ge cv (mag e) 7) \<and>
                  (js_trim t = [] \<or> includes_str (toLowerCase (place e)) (toLowerCase t))) eqs \<and>
   applyFilter cv flt t eqs = filter (kept_by_search cv t) (filter (kept_by_range cv flt) eqs) \<and>
   subseq (applyFilter cv flt t eqs) eqs"
proof -
  have r: "kept_by_range cv flt =
      (\<lambda>e. case flt of
              F_all \<Rightarrow> True
            | F_0_3 \<Rightarrow> js_lt cv (mag e) 3
            | F_3_5 \<Rightarrow> js_ge cv (mag e) 3 \<and> js_lt cv (mag e) 5
            | F_5_7 \<Rightarrow> js_ge cv (mag e) 5 \<and> js_lt cv (mag e) 7
            | F_7_plus \<Rightarrow> js_ge cv (mag e) 7)"
    by (cases flt) (simp_all add: fun_eq_iff kept_by_range_simps)
  have s: "kept_by_search cv t =
      (\<lambda>e. js_trim t = [] \<or> includes_str (toLowerCase (place e)) (toLowerCase t))"
    by (simp add: fun_eq_iff kept_by_search_iff)
  have a: "applyFilter cv flt t eqs = filter (kept_by_search cv t) (filter (kept_by_range cv flt) eqs)"
    by (rule applyFilter_filter)
  have b: "subseq (applyFilter cv flt t eqs) eqs"
    by (simp add: a)
  have c: "filter (kept_by_search cv t) (filter (kept_by_range cv flt) eqs) =
      filter (\<lambda>e. kept_by_range cv flt e \<and> kept_by_search cv t e) eqs"
    by (simp add: conj_commute)
  show ?thesis
    using a b c unfolding r s by simp
qed

theorem C4_witness:
  "applyFilter sample_cv F_3_5 ''tokyo''
     [event_fiji, event_osaka, event_trailing_comma, event_tokyo] = [event_tokyo] \<and>
   applyFilter sample_cv F_3_5 ''japan''
     [event_tokyo, event_trailing_comma, event_osaka] = [event_tokyo, event_osaka] \<and>
   applyFilter sample_cv F_3_5 ''japan''
     [event_osaka, event_trailing_comma, event_tokyo] = [event_osaka, event_tokyo] \<and>
   subseq (applyFilter sample_cv F_3_5 ''japan'' [event_tokyo, event_trailing_comma, event_osaka])
     [event_tokyo, event_trailing_comma, event_osaka]"
proof -
  have l: "toLowerCase ''10km SE of Tokyo, Japan'' = ''10km se of tokyo, japan''"
      "toLowerCase ''20km N of Osaka, Japan'' = ''20km n of osaka, japan''"
      "toLowerCase ''Fiji region'' = ''fiji region''"
      "toLowerCase ''Tokyo, '' = ''tokyo, ''"
      "toLowerCase ''tokyo'' = ''tokyo''"
      "toLowerCase ''japan'' = ''japan''"
    by code_simp+
  have t: "js_trim ''tokyo'' \<noteq> []" "js_trim ''japan'' \<noteq> []"
    by (simp_all add: js_trim_def is_ws_def)
  note ev = event_fiji_def event_osaka_def event_trailing_comma_def event_tokyo_def
  note cmp = js_lt_def js_ge_def num_ge_def ToNumber_def
  have 1: "applyFilter sample_cv F_3_5 ''tokyo''
     [event_fiji, event_osaka, event_trailing_comma, event_tokyo] = [event_tokyo]"
    by (subst C4_range_then_search_stable [THEN conjunct1]) (simp add: ev cmp l t)
  have 2: "applyFilter sample_cv F_3_5 ''japan''
     [event_tokyo, event_trailing_comma, event_osaka] = [event_tokyo, event_osaka]"
    by (subst C4_range_then_search_stable [THEN conjunct1]) (simp add: ev cmp l t)
  have 3: "applyFilter sample_cv F_3_5 ''japan''
     [event_osaka, event_trailing_comma, event_tokyo] = [event_osaka, event_tokyo]"
    by (subst C4_range_then_search_stable [THEN conjunct1]) (simp add: ev cmp l t)
  have 4: "subseq (applyFilter sample_cv F_3_5 ''japan''
      [event_tokyo, event_trailing_comma, event_osaka])
     [event_tokyo, event_trailing_comma, event_osaka]"
    using C4_range_then_search_stable
      [of sample_cv F_3_5 "''japan''" "[event_tokyo, event_trailing_comma, event_osaka]"]
    by blast
  show ?thesis
    using 1 2 3 4 by blast
qed

text \<open>
  Claim C5. The search filter is a case-insensitive substring match against each
  event's place: with a search text that is not blank, an event passes iff some
  substring of its place equals the text up to letter case. Two texts that differ in
  letter case only give the same result on every collection, in particular
  \<^verbatim>\<open>"Japan"\<close> and \<^verbatim>\<open>"japan"\<close>. A text that is empty or consists of white space
  only (which is when \<^verbatim>\<open>trim\<close> leaves nothing) gives the result of no search filter.
\<close>

theorem C5_search_case_insensitive:
  "(js_trim t \<noteq> [] \<longrightarrow>
      applyFilter cv flt t eqs =
        filter (\<lambda>e. \<exists>u. sublist u (place e) \<and> toLowerCase u = toLowerCase t)
          (applyFilter cv flt [] eqs)) \<and>
   (toLowerCase s = toLowerCase t \<longrightarrow> applyFilter cv flt s eqs = applyFilter cv flt t eqs) \<and>
   applyFilter cv flt ''Japan'' eqs = applyFilter cv flt ''japan'' eqs \<and>
   (js_trim t = [] \<longleftrightarrow> (\<forall>c\<in>set t. is_ws c)) \<and>
   (js_trim t = [] \<longrightarrow> applyFilter cv flt t eqs = applyFilter cv flt [] eqs)"
proof -
  have a: "applyFilter cv flt t eqs =
        filter (\<lambda>e. \<exists>u. sublist u (place e) \<and> toLowerCase u = toLowerCase t)
          (applyFilter cv flt [] eqs)" if "js_trim t \<noteq> []"
    using that
    by (simp add: applyFilter_filter [of cv flt t] applyFilter_filter [of cv flt "[]"]
        kept_by_search_iff [abs_def] includes_lower_iff)
  have j: "toLowerCase ''Japan'' = toLowerCase ''japan''"
    by code_simp
  show ?thesis
    using a applyFilter_lower_cong [of s t cv flt eqs] applyFilter_lower_cong [OF j, of cv flt eqs]
      js_trim_eq_Nil [of t] applyFilter_no_search [of t cv flt eqs]
    by blast
qed

theorem C5_witness:
  "js_trim ''JAPAN'' \<noteq> [] \<and>
   applyFilter sample_cv F_all ''JAPAN'' [event_fiji, event_tokyo] =
     filter (\<lambda>e. \<exists>u. sublist u (place e) \<and> toLowerCase u = toLowerCase ''JAPAN'')
       (applyFilter sample_cv F_all [] [event_fiji, event_tokyo]) \<and>
   applyFilter sample_cv F_all ''JAPAN'' [event_fiji, event_tokyo] = [event_tokyo] \<and>
   toLowerCase ''JAPAN'' = toLowerCase ''japan'' \<and>
   applyFilter sample_cv F_all ''JAPAN'' [event_fiji, event_tokyo] =
     applyFilter sample_cv F_all ''japan'' [event_fiji, event_tokyo] \<and>
   js_trim '' '' = [] \<and>
   applyFilter sample_cv F_all '' '' [event_fiji, event_tokyo] = [event_fiji, event_tokyo]"
proof -
  have t: "js_trim ''JAPAN'' \<noteq> []"
    by (simp add: js_trim_def is_ws_def)
  have l: "toLowerCase ''JAPAN'' = toLowerCase ''japan''"
    by code_simp
  have w: "js_trim '' '' = []"
    by (simp add: js_trim_def is_ws_def)
  have lt: "toLowerCase ''10km SE of Tokyo, Japan'' = ''10km se of tokyo, japan''"
    by code_simp
  have lf: "toLowerCase ''Fiji region'' = ''fiji region''"
    by code_simp
  have lj: "toLowerCase ''JAPAN'' = ''japan''"
    by code_simp
  have r: "applyFilter sample_cv F_all ''JAPAN'' [event_fiji, event_tokyo] = [event_tokyo]"
    by (simp add: applyFilter_def js_trim_def is_ws_def event_fiji_def event_tokyo_def lt lf lj)
  have n: "applyFilter sample_cv F_all [] [event_fiji, event_tokyo] = [event_fiji, event_tokyo]"
    by (simp add: applyFilter_def)
  show ?thesis
    using t l w r n
      C5_search_case_insensitive
        [of "''JAPAN''" sample_cv F_all "[event_fiji, event_tokyo]" "''japan''"]
      C5_search_case_insensitive
        [of "'' ''" sample_cv F_all "[event_fiji, event_tokyo]" "'' ''"]
    by simp
qed

text \<open>
  Claim C6. For every filtered collection the visible window \<^verbatim>\<open>paginatedData\<close> is
  exactly its first \<open>page * pageSize\<close> elements, with \<open>pageSize = 10\<close>; and windowing
  is monotonic: for window sizes \<open>n \<le> m\<close> the window of size \<open>n\<close> is a prefix of the
  window of size \<open>m\<close>, so a larger window keeps the order and content of the smaller.
\<close>

theorem C6_window_is_monotonic_prefix:
  "paginatedData page xs = take (page * pageSize) xs \<and>
   pageSize = 10 \<and>
   (n \<le> m \<longrightarrow> prefix (js_slice 0 n xs) (js_slice 0 m xs)) \<and>
   (p \<le> q \<longrightarrow> prefix (paginatedData p xs) (paginatedData q xs))"
proof -
  have "p * pageSize \<le> q * pageSize" if "p \<le> q"
    using that by simp
  then show ?thesis
    by (auto simp: paginatedData_def js_slice_prefix) (simp_all add: js_slice_def pageSize_def)
qed

theorem C6_witness:
  "(10::nat) \<le> 20 \<and> (1::nat) \<le> 2 \<and>
   paginatedData 1 [1, 2, 3, 4, 5, 6, 7, 8, 9, 10, 11, 12 :: nat] =
     [1, 2, 3, 4, 5, 6, 7, 8, 9, 10] \<and>
   prefix (js_slice 0 10 [1, 2, 3, 4, 5, 6, 7, 8, 9, 10, 11, 12 :: nat])
     (js_slice 0 20 [1, 2, 3, 4, 5, 6, 7, 8, 9, 10, 11, 12 :: nat]) \<and>
   prefix (paginatedData 1 [1, 2, 3, 4, 5, 6, 7, 8, 9, 10, 11, 12 :: nat])
     (paginatedData 2 [1, 2, 3, 4, 5, 6, 7, 8, 9, 10, 11, 12 :: nat])"
proof -
  note th = C6_window_is_monotonic_prefix
    [of 1 "[1, 2, 3, 4, 5, 6, 7, 8, 9, 10, 11, 12 :: nat]" 10 20 1 2]
  have a: "(10::nat) \<le> 20" "(1::nat) \<le> 2"
    by simp_all
  have v: "paginatedData 1 [1, 2, 3, 4, 5, 6, 7, 8, 9, 10, 11, 12 :: nat] =
     [1, 2, 3, 4, 5, 6, 7, 8, 9, 10]"
    by (simp add: paginatedData_def js_slice_def pageSize_def)
  show ?thesis
    using a v th by blast
qed

section \<open>Normalization: claims C1, C7 and C10\<close>

text \<open>
  Claim C1, as amended. A record without \<^verbatim>\<open>properties.mag\<close> is not dropped.
  \<^verbatim>\<open>data.features.map\<close> returns a collection exactly when every record of the batch
  normalizes, and then the collection holds one event for each record, in the order of
  the records, each the normalization of its record; the magnitude of an event is what
  the read \<^verbatim>\<open>f.properties.mag\<close> gives, so it is undefined for a record without it.
\<close>

theorem C1_one_event_per_record:
  "(map_features R (JArr fs) = Inr es \<longleftrightarrow> list_all2 (\<lambda>f e. normalize_record R f = Inr e) fs es) \<and>
   (map_features R (JArr fs) = Inr es \<longrightarrow> length es = length fs) \<and>
   (normalize_record R f = Inr e \<longrightarrow> properties_mag f = Inr (mag e)) \<and>
   (normalize_record R f = Inr e \<longrightarrow> properties_mag f = Inr JUndefined \<longrightarrow> mag e = JUndefined)"
proof -
  have a: "map_features R (JArr fs) = Inr es \<longleftrightarrow> list_all2 (\<lambda>f e. normalize_record R f = Inr e) fs es"
    by (simp add: map_features_def map_err_Inr)
  have b: "length es = length fs" if "map_features R (JArr fs) = Inr es"
    using that a by (simp add: list_all2_lengthD)
  show ?thesis
    using a b normalize_mag [of R f e] by auto
qed

theorem C1_witness:
  "map_features sample_getAlpha2Code (JArr [feature_without_mag, feature_tokyo]) =
     Inr [event_fiji, event_tokyo] \<and>
   length [event_fiji, event_tokyo] = length [feature_without_mag, feature_tokyo] \<and>
   normalize_record sample_getAlpha2Code feature_without_mag = Inr event_fiji \<and>
   properties_mag feature_without_mag = Inr JUndefined \<and>
   mag event_fiji = JUndefined"
proof -
  note th = C1_one_event_per_record
    [of sample_getAlpha2Code "[feature_without_mag, feature_tokyo]"
      "[event_fiji, event_tokyo]" feature_without_mag event_fiji]
  have l: "list_all2 (\<lambda>f e. normalize_record sample_getAlpha2Code f = Inr e)
      [feature_without_mag, feature_tokyo] [event_fiji, event_tokyo]"
    by (simp add: normalize_feature_without_mag normalize_feature_tokyo)
  have m: "mag event_fiji = JUndefined"
    by (simp add: event_fiji_def)
  show ?thesis
    using th l m normalize_feature_without_mag by simp
qed

text \<open>
  The claim as stated fails: the batch of a record without \<^verbatim>\<open>properties.mag\<close> and
  a complete record gives two events, the first with an undefined magnitude.
\<close>

theorem C1_counterexample:
  "properties_mag feature_without_mag = Inr JUndefined \<and>
   map_features sample_getAlpha2Code (JArr [feature_without_mag, feature_tokyo]) =
     Inr [event_fiji, event_tokyo] \<and>
   mag event_fiji = JUndefined"
proof -
  have "properties_mag feature_without_mag = Inr JUndefined"
    by (simp add: properties_mag_def feature_without_mag_def js_get_def bind_err_def)
  moreover have "map_features sample_getAlpha2Code (JArr [feature_without_mag, feature_tokyo]) =
     Inr [event_fiji, event_tokyo]"
    by (simp add: map_features_def normalize_feature_without_mag normalize_feature_tokyo)
  moreover have "mag event_fiji = JUndefined"
    by (simp add: event_fiji_def)
  ultimately show ?thesis
    by simp
qed

text \<open>
  Claim C7. Normalization splits the place on commas and trims each segment. There
  is more than one segment iff the place holds a comma, and exactly then the country
  table is asked, for the trimmed last segment, which is the trimmed text after the
  last comma; otherwise, and when the table has no entry, the country code is absent.
  A failed lookup is no error: whether normalization throws does not depend on the
  table. The code depends on the place through that last segment only, so
  \<^verbatim>\<open>"10km SE of Tokyo, Japan"\<close> and \<^verbatim>\<open>"20km N of Osaka, Japan"\<close> get the same code,
  the table's answer for \<^verbatim>\<open>"Japan"\<close>.
\<close>

theorem C7_country_resolution:
  "(Suc 0 < length (map js_trim (js_split CHR '','' p)) \<longleftrightarrow> CHR '','' \<in> set p) \<and>
   map js_trim (js_split CHR '','' p) ! (length (js_split CHR '','' p) - 1) =
     js_trim (rev (takeWhile (\<lambda>c. c \<noteq> CHR '','') (rev p))) \<and>
   countryCode_of R p =
     (if CHR '','' \<in> set p
      then or_undefined (R (js_trim (rev (takeWhile (\<lambda>c. c \<noteq> CHR '','') (rev p)))))
      else None) \<and>
   (R (js_trim (rev (takeWhile (\<lambda>c. c \<noteq> CHR '','') (rev p)))) = None \<longrightarrow>
      countryCode_of R p = None) \<and>
   (normalize_record R f = Inr e \<longrightarrow> country e = countryCode_of R (place e)) \<and>
   (normalize_record R f = Inl err \<longleftrightarrow> normalize_record R' f = Inl err) \<and>
   countryCode_of R ''10km SE of Tokyo, Japan'' = or_undefined (R ''Japan'') \<and>
   countryCode_of R ''20km N of Osaka, Japan'' = or_undefined (R ''Japan'')"
proof -
  have t: "countryCode_of R ''10km SE of Tokyo, Japan'' = or_undefined (R ''Japan'')"
    by (simp add: countryCode_of_eq js_trim_def is_ws_def)
  have o: "countryCode_of R ''20km N of Osaka, Japan'' = or_undefined (R ''Japan'')"
    by (simp add: countryCode_of_eq js_trim_def is_ws_def)
  have n: "countryCode_of R p = None"
    if "R (js_trim (rev (takeWhile (\<lambda>c. c \<noteq> CHR '','') (rev p)))) = None"
    using that by (simp add: countryCode_of_eq or_undefined_def)
  have m: "Suc 0 < length (map js_trim (js_split CHR '','' p)) \<longleftrightarrow> CHR '','' \<in> set p"
    by (simp add: js_split_many)
  show ?thesis
    using t o n m last_part [of "CHR '',''" p] countryCode_of_eq [of R p]
      normalize_country [of R f e] normalize_error_indep [of R f err R']
    by blast
qed

theorem C7_witness:
  "CHR '','' \<in> set ''5km W of Atlantis, Nowhere'' \<and>
   sample_getAlpha2Code ''Nowhere'' = None \<and>
   countryCode_of sample_getAlpha2Code ''5km W of Atlantis, Nowhere'' = None \<and>
   normalize_record sample_getAlpha2Code feature_tokyo = Inr event_tokyo \<and>
   country event_tokyo = countryCode_of sample_getAlpha2Code (place event_tokyo) \<and>
   countryCode_of sample_getAlpha2Code ''10km SE of Tokyo, Japan'' = Some ''JP'' \<and>
   countryCode_of sample_getAlpha2Code ''20km N of Osaka, Japan'' = Some ''JP''"
proof -
  note th = C7_country_resolution
    [of "''5km W of Atlantis, Nowhere''" sample_getAlpha2Code feature_tokyo event_tokyo]
  have r: "js_trim (rev (takeWhile (\<lambda>c. c \<noteq> CHR '','') (rev ''5km W of Atlantis, Nowhere''))) =
      ''Nowhere''"
    by (simp add: js_trim_def is_ws_def)
  have s: "sample_getAlpha2Code ''Nowhere'' = None"
      "or_undefined (sample_getAlpha2Code ''Japan'') = Some ''JP''"
    by (simp_all add: sample_getAlpha2Code_def or_undefined_def)
  show ?thesis
    using th r s normalize_feature_tokyo by (simp add: or_undefined_def)
qed

text \<open>
  Claim C10. For every feed record that can be read and whose \<^verbatim>\<open>properties.place\<close>
  is falsy (the empty string, undefined for a missing field, null, false, 0 or NaN),
  normalization returns the event with the place \<^verbatim>\<open>"Unknown"\<close> and no country code:
  the empty string is treated as a missing place is.
\<close>

theorem C10_falsy_place_is_Unknown:
  assumes "js_get f ''geometry'' = Inr g" and "js_get g ''coordinates'' = Inr cs"
    and "destructure2 cs = Inr (lo, la)" and "js_get f ''properties'' = Inr props"
    and "js_get props ''place'' = Inr pl" and "\<not> truthy pl"
    and "js_get f ''id'' = Inr i" and "js_get props ''mag'' = Inr m"
    and "js_get props ''time'' = Inr t"
  shows "normalize_record R f =
           Inr \<lparr> id_f = i, place = ''Unknown'', mag = m, time = t, lat = la, lon = lo,
                 country = None \<rparr> \<and>
         \<not> truthy (JStr []) \<and> \<not> truthy JUndefined"
  using assms by (simp add: normalize_record_def bind_err_def countryCode_of_def)

theorem C10_witness:
  "js_get feature_empty_place ''properties'' =
     Inr (JObj [(''place'', JStr []), (''mag'', JNum (Fin 2)),
                (''time'', JNum (Fin 1700000001000))]) \<and>
   js_get (JObj [(''place'', JStr []), (''mag'', JNum (Fin 2)),
                 (''time'', JNum (Fin 1700000001000))]) ''place'' = Inr (JStr []) \<and>
   \<not> truthy (JStr []) \<and>
   normalize_record sample_getAlpha2Code feature_empty_place = Inr event_unknown \<and>
   place event_unknown = ''Unknown'' \<and> country event_unknown = None"
proof -
  have g: "js_get feature_empty_place ''geometry'' =
      Inr (JObj [(''coordinates'', JArr [JNum (Fin 10), JNum (Fin 20)])])"
    by (simp add: feature_empty_place_def js_get_def)
  have c: "js_get (JObj [(''coordinates'', JArr [JNum (Fin 10), JNum (Fin 20)])]) ''coordinates'' =
      Inr (JArr [JNum (Fin 10), JNum (Fin 20)])"
    by (simp add: js_get_def)
  have d: "destructure2 (JArr [JNum (Fin 10), JNum (Fin 20)]) = Inr (JNum (Fin 10), JNum (Fin 20))"
    by (simp add: destructure2_def elem_or_undefined_def)
  have p: "js_get feature_empty_place ''properties'' =
      Inr (JObj [(''place'', JStr []), (''mag'', JNum (Fin 2)),
                 (''time'', JNum (Fin 1700000001000))])"
    by (simp add: feature_empty_place_def js_get_def)
  have pl: "js_get (JObj [(''place'', JStr []), (''mag'', JNum (Fin 2)),
                 (''time'', JNum (Fin 1700000001000))]) ''place'' = Inr (JStr [])"
    by (simp add: js_get_def)
  have f: "\<not> truthy (JStr [])"
    by simp
  have i: "js_get feature_empty_place ''id'' = Inr (JStr ''ev2'')"
    by (simp add: feature_empty_place_def js_get_def)
  have m: "js_get (JObj [(''place'', JStr []), (''mag'', JNum (Fin 2)),
                 (''time'', JNum (Fin 1700000001000))]) ''mag'' = Inr (JNum (Fin 2))"
    by (simp add: js_get_def)
  have t: "js_get (JObj [(''place'', JStr []), (''mag'', JNum (Fin 2)),
                 (''time'', JNum (Fin 1700000001000))]) ''time'' = Inr (JNum (Fin 1700000001000))"
    by (simp add: js_get_def)
  note th = C10_falsy_place_is_Unknown [OF g c d p pl f i m t, of sample_getAlpha2Code]
  show ?thesis
    using th p pl by (simp add: event_unknown_def)
qed

section \<open>Ingestion failures and the country label: claims C8 and C9\<close>

text \<open>
  Claim C8, as amended. Ingestion tells its two failure modes apart and resets the
  collection on both. When \<^verbatim>\<open>fetch\<close> rejects or the response is not ok, the error
  message becomes the label followed by \<^verbatim>\<open>" failed to load."\<close> and the collection
  becomes empty; the message is the same for every such failure and does not hold the
  status text, which stands only in the \<^verbatim>\<open>Error\<close> printed to the console for a
  response that is not ok. When the response is ok and its feature list is missing,
  otherwise falsy or empty, the error message becomes the label followed by
  \<^verbatim>\<open>" not available."\<close>, a different message, and the collection becomes empty.
\<close>

theorem C8_failure_modes:
  "(net (feed_url fd) = Rejected \<or> net (feed_url fd) = Response False txt body \<longrightarrow>
      fst (fetchData net tr R fd lang st) =
        \<lparr>earthquakes = [], error = Some (tr lang @ '' failed to load.'')\<rparr>) \<and>
   (net (feed_url fd) = Response False txt body \<longrightarrow>
      snd (fetchData net tr R fd lang st) = [Error (''Failed to fetch data: '' @ txt)]) \<and>
   (net (feed_url fd) = Rejected \<longrightarrow>
      snd (fetchData net tr R fd lang st) = [FetchRejected]) \<and>
   (net (feed_url fd) = Response True txt (Some data) \<and> js_get data ''features'' = Inr fs \<and>
    (\<not> truthy fs \<or> fs = JArr []) \<longrightarrow>
      fetchData net tr R fd lang st =
        (\<lparr>earthquakes = [], error = Some (tr lang @ '' not available.'')\<rparr>, [])) \<and>
   tr lang @ '' failed to load.'' \<noteq> tr lang @ '' not available.''"
proof -
  have a: "fst (fetchData net tr R fd lang st) =
        \<lparr>earthquakes = [], error = Some (tr lang @ '' failed to load.'')\<rparr>"
    if "net (feed_url fd) = Rejected \<or> net (feed_url fd) = Response False txt body"
    using that by (auto simp: fetchData_def try_block_def Let_def)
  have b: "snd (fetchData net tr R fd lang st) = [Error (''Failed to fetch data: '' @ txt)]"
    if "net (feed_url fd) = Response False txt body"
    using that by (simp add: fetchData_def try_block_def Let_def)
  have c: "snd (fetchData net tr R fd lang st) = [FetchRejected]"
    if "net (feed_url fd) = Rejected"
    using that by (simp add: fetchData_def try_block_def Let_def)
  have d: "fetchData net tr R fd lang st =
        (\<lparr>earthquakes = [], error = Some (tr lang @ '' not available.'')\<rparr>, [])"
    if "net (feed_url fd) = Response True txt (Some data)" "js_get data ''features'' = Inr fs"
      "\<not> truthy fs \<or> fs = JArr []"
    using that by (auto simp: fetchData_def try_block_def Let_def bind_err_def js_get_def)
  have e: "tr lang @ '' failed to load.'' \<noteq> tr lang @ '' not available.''"
    by simp
  show ?thesis
    using a b c d e by blast
qed

theorem C8_witness:
  "net_status_500 (feed_url Weekly) = Response False ''Internal Server Error'' None \<and>
   fetchData net_status_500 sample_label sample_getAlpha2Code Weekly En loaded_state =
     (\<lparr>earthquakes = [], error = Some ''Earthquake Data failed to load.''\<rparr>,
      [Error ''Failed to fetch data: Internal Server Error'']) \<and>
   net_empty_features (feed_url Weekly) =
     Response True ''OK'' (Some (JObj [(''features'', JArr [])])) \<and>
   js_get (JObj [(''features'', JArr [])]) ''features'' = Inr (JArr []) \<and>
   fetchData net_empty_features sample_label sample_getAlpha2Code Weekly En loaded_state =
     (\<lparr>earthquakes = [], error = Some ''Earthquake Data not available.''\<rparr>, [])"
proof -
  note th1 = C8_failure_modes
    [of net_status_500 Weekly "''Internal Server Error''" None sample_label
      sample_getAlpha2Code En loaded_state]
  note th2 = C8_failure_modes
    [of net_empty_features Weekly "''OK''" None sample_label
      sample_getAlpha2Code En loaded_state "JObj [(''features'', JArr [])]" "JArr []"]
  have n1: "net_status_500 (feed_url Weekly) = Response False ''Internal Server Error'' None"
    by (simp add: net_status_500_def)
  have n2: "net_empty_features (feed_url Weekly) =
     Response True ''OK'' (Some (JObj [(''features'', JArr [])]))"
    by (simp add: net_empty_features_def)
  have g: "js_get (JObj [(''features'', JArr [])]) ''features'' = Inr (JArr [])"
    by (simp add: js_get_def)
  have f: "fetchData net_status_500 sample_label sample_getAlpha2Code Weekly En loaded_state =
     (\<lparr>earthquakes = [], error = Some ''Earthquake Data failed to load.''\<rparr>,
      [Error ''Failed to fetch data: Internal Server Error''])"
    using th1 n1 by (simp add: prod_eq_iff sample_label_def)
  have h: "fetchData net_empty_features sample_label sample_getAlpha2Code Weekly En loaded_state =
     (\<lparr>earthquakes = [], error = Some ''Earthquake Data not available.''\<rparr>, [])"
    using th2 n2 g by (simp add: sample_label_def)
  show ?thesis
    using n1 n2 g f h by blast
qed

text \<open>
  The claim as stated fails: after a response with status text
  \<^verbatim>\<open>"Internal Server Error"\<close> the state holds the message
  \<^verbatim>\<open>"Earthquake Data failed to load."\<close>, without the status text, and it is the state
  that a response with status text \<^verbatim>\<open>"Not Found"\<close> and a rejected request give too.
\<close>

theorem C8_counterexample:
  "fst (fetchData net_status_500 sample_label sample_getAlpha2Code Weekly En loaded_state) =
     \<lparr>earthquakes = [], error = Some ''Earthquake Data failed to load.''\<rparr> \<and>
   fst (fetchData net_status_404 sample_label sample_getAlpha2Code Weekly En loaded_state) =
     fst (fetchData net_status_500 sample_label sample_getAlpha2Code Weekly En loaded_state) \<and>
   fst (fetchData net_rejected sample_label sample_getAlpha2Code Weekly En loaded_state) =
     fst (fetchData net_status_500 sample_label sample_getAlpha2Code Weekly En loaded_state)"
  by (simp add: fetchData_def try_block_def Let_def net_status_500_def net_status_404_def
      net_rejected_def sample_label_def loaded_state_def)

text \<open>
  Claim C9, as amended. For every event and language \<^verbatim>\<open>formatCountry\<close> returns:
  when the country code is present, the name the country table gives for it in the
  language, and the stored code itself when the table gives none; otherwise the
  trimmed text after the last comma of the place, derived when called, which is the
  whole trimmed place when the place has no comma; \<^verbatim>\<open>"Unknown"\<close> is returned only
  when that text is empty.
\<close>

theorem C9_formatCountry:
  "(country eq = Some c \<and> c \<noteq> [] \<longrightarrow>
      formatCountry gn lang eq =
        (case gn c lang of None \<Rightarrow> c | Some n \<Rightarrow> if n = [] then c else n)) \<and>
   (country eq = None \<longrightarrow>
      formatCountry gn lang eq =
        (if js_trim (rev (takeWhile (\<lambda>x. x \<noteq> CHR '','') (rev (place eq)))) = []
         then ''Unknown''
         else js_trim (rev (takeWhile (\<lambda>x. x \<noteq> CHR '','') (rev (place eq)))))) \<and>
   (country eq = None \<and> CHR '','' \<notin> set (place eq) \<longrightarrow>
      formatCountry gn lang eq =
        (if js_trim (place eq) = [] then ''Unknown'' else js_trim (place eq)))"
proof -
  have a: "formatCountry gn lang eq =
        (case gn c lang of None \<Rightarrow> c | Some n \<Rightarrow> if n = [] then c else n)"
    if "country eq = Some c \<and> c \<noteq> []"
    using that by (simp add: formatCountry_def or_undefined_def split: option.splits)
  have b: "formatCountry gn lang eq =
        (if js_trim (rev (takeWhile (\<lambda>x. x \<noteq> CHR '','') (rev (place eq)))) = []
         then ''Unknown''
         else js_trim (rev (takeWhile (\<lambda>x. x \<noteq> CHR '','') (rev (place eq)))))"
    if "country eq = None"
    using that last_part [of "CHR '',''" "place eq"]
    by (simp add: formatCountry_def or_undefined_def Let_def)
  have w: "rev (takeWhile (\<lambda>x. x \<noteq> CHR '','') (rev (place eq))) = place eq"
    if "CHR '','' \<notin> set (place eq)"
  proof -
    have "\<forall>x\<in>set (rev (place eq)). x \<noteq> CHR '',''"
      using that by auto
    then have "takeWhile (\<lambda>x. x \<noteq> CHR '','') (rev (place eq)) = rev (place eq)"
      by (simp only: takeWhile_eq_all_conv)
    then show ?thesis
      by (simp only: rev_rev_ident)
  qed
  show ?thesis
    using a b w by auto
qed

theorem C9_witness:
  "country event_tokyo = Some ''JP'' \<and>
   formatCountry sample_getName En event_tokyo = ''Japan'' \<and>
   formatCountry sample_getName Hi event_tokyo = ''JP'' \<and>
   country event_fiji = None \<and> CHR '','' \<notin> set (place event_fiji) \<and>
   formatCountry sample_getName En event_fiji = ''Fiji region'' \<and>
   country event_trailing_comma = None \<and>
   formatCountry sample_getName En event_trailing_comma = ''Unknown''"
proof -
  have c: "country event_tokyo = Some ''JP''" "country event_fiji = None"
      "country event_trailing_comma = None"
    by (simp_all add: event_tokyo_def event_fiji_def event_trailing_comma_def)
  have p: "place event_fiji = ''Fiji region''" "place event_trailing_comma = ''Tokyo, ''"
    by (simp_all add: event_fiji_def event_trailing_comma_def)
  have n: "CHR '','' \<notin> set (place event_fiji)"
    by (simp add: p)
  have t: "js_trim ''Fiji region'' = ''Fiji region''" "js_trim '' '' = []"
    by (simp_all add: js_trim_def is_ws_def)
  have 1: "formatCountry sample_getName En event_tokyo = ''Japan''"
    using C9_formatCountry [of event_tokyo "''JP''" sample_getName En] c
    by (simp add: sample_getName_def)
  have 2: "formatCountry sample_getName Hi event_tokyo = ''JP''"
    using C9_formatCountry [of event_tokyo "''JP''" sample_getName Hi] c
    by (simp add: sample_getName_def)
  have 3: "formatCountry sample_getName En event_fiji = ''Fiji region''"
    using C9_formatCountry [of event_fiji "[]" sample_getName En] c n
    by (simp add: p t)
  have 4: "formatCountry sample_getName En event_trailing_comma = ''Unknown''"
    using C9_formatCountry [of event_trailing_comma "[]" sample_getName En] c
    by (simp add: p t)
  show ?thesis
    using c n 1 2 3 4 by blast
qed

text \<open>
  The claim as stated fails: the place \<^verbatim>\<open>"Fiji region"\<close> has no comma, hence no
  comma-delimited tail, and the event has no country code, yet the result is the
  place itself, not \<^verbatim>\<open>"Unknown"\<close>.
\<close>

theorem C9_counterexample:
  "country event_fiji = None \<and> place event_fiji = ''Fiji region'' \<and>
   formatCountry sample_getName En event_fiji = ''Fiji region''"
  by (simp add: formatCountry_def event_fiji_def or_undefined_def js_trim_def is_ws_def)

end
